theory Spec2Isabelle
  imports Complex_Main
begin

section \<open>Data model\<close>

text \<open>
  JavaScript numbers are modelled as real numbers: every statement below is about exact
  arithmetic. A division whose divisor is zero has no real value in JavaScript (it yields
  an infinity or NaN), so the model makes every division partial and returns \<open>None\<close> there.
\<close>

type_synonym position = "real \<times> real"

definition js_div :: "real \<Rightarrow> real \<Rightarrow> real option" where
  "js_div a b = (if b = 0 then None else Some (a / b))"

section \<open>The even-odd hit test of \<open>lib/inside.js\<close>\<close>

text \<open>
  The condition of the \<open>if\<close> in the loop body, for the point \<open>(x, y)\<close> and the vertices
  \<open>ring[i]\<close> and \<open>ring[j]\<close>. The operator \<open>&&\<close> evaluates its right operand, and with it
  the division, only when the left operand is true. The result is \<open>None\<close> when a division
  by zero is evaluated.
\<close>

definition toggles :: "position \<Rightarrow> position \<Rightarrow> position \<Rightarrow> bool option" where
  "toggles pt vi vj =
     (let x = fst pt; y = snd pt in
      if (snd vi > y) \<noteq> (snd vj > y)
      then (case js_div ((fst vj - fst vi) * (y - snd vi)) (snd vj - snd vi) of
              None \<Rightarrow> None
            | Some q \<Rightarrow> Some (x < q + fst vi))
      else Some False)"

text \<open>
  The \<open>for\<close> loop over \<open>i\<close>, with the loop state \<open>j\<close> and \<open>isInside\<close>. The assignment
  \<open>j = i\<close> stands inside the braces of the \<open>if\<close>, so \<open>j\<close> changes only when the edge
  toggles.
\<close>

function classify_loop ::
  "position \<Rightarrow> position list \<Rightarrow> nat \<Rightarrow> nat \<Rightarrow> bool \<Rightarrow> bool option" where
  "classify_loop pt ring i j isInside =
     (if i < length ring
      then (case toggles pt (ring ! i) (ring ! j) of
              None \<Rightarrow> None
            | Some True \<Rightarrow> classify_loop pt ring (i + 1) i (\<not> isInside)
            | Some False \<Rightarrow> classify_loop pt ring (i + 1) j isInside)
      else Some isInside)"
  by pat_completeness auto
termination
  by (relation "measure (\<lambda>(pt, ring, i, j, isInside). length ring - i)") auto

text \<open>
  The exported function: \<open>j\<close> starts at \<open>polyLength - 1\<close> (for an empty ring the loop
  body never runs and \<open>j\<close> is never read), \<open>isInside\<close> at \<open>false\<close>; the value is what the
  callback \<open>done\<close> receives.
\<close>

definition classify :: "position \<Rightarrow> position list \<Rightarrow> bool option" where
  "classify pt ring = classify_loop pt ring 0 (length ring - 1) False"

text \<open>
  The even-odd loop as the specification words it: the previous-vertex index is advanced
  on every iteration, whether or not the edge toggles.
\<close>

function textbook_loop ::
  "position \<Rightarrow> position list \<Rightarrow> nat \<Rightarrow> nat \<Rightarrow> bool \<Rightarrow> bool option" where
  "textbook_loop pt ring i j isInside =
     (if i < length ring
      then (case toggles pt (ring ! i) (ring ! j) of
              None \<Rightarrow> None
            | Some True \<Rightarrow> textbook_loop pt ring (i + 1) i (\<not> isInside)
            | Some False \<Rightarrow> textbook_loop pt ring (i + 1) i isInside)
      else Some isInside)"
  by pat_completeness auto
termination
  by (relation "measure (\<lambda>(pt, ring, i, j, isInside). length ring - i)") auto

definition classify_textbook :: "position \<Rightarrow> position list \<Rightarrow> bool option" where
  "classify_textbook pt ring = textbook_loop pt ring 0 (length ring - 1) False"

text \<open>The square ring of the third scenario of the specification.\<close>

definition square :: "position list" where
  "square = [(0, 0), (0, 10), (10, 10), (10, 0), (0, 0)]"

section \<open>The query of \<open>turf-shortest-path/index.js\<close>\<close>

subsection \<open>Values, GeoJSON objects and errors\<close>

text \<open>
  A thrown \<open>Error\<close> carries its message; \<open>TypeError\<close> is what reading a property of
  \<open>undefined\<close> throws. \<open>NonFinite\<close> is not a JavaScript exception: it marks the place where
  a division by zero, or the numeric use of NaN, takes the computation out of the real
  numbers, and the model follows the code no further.
\<close>

datatype error = Error string | TypeError | NonFinite

text \<open>The values an option can hold (objects and arrays apart).\<close>

datatype jsval = JUndefined | JNull | JBool bool | JNum real | JNaN | JStr string

datatype geometry =
    Point position
  | LineString "position list"
  | Polygon "position list list"

text \<open>
  \<open>Coord\<close> is a bare array \<open>[x, y]\<close>, \<open>Geom\<close> a geometry object, \<open>Feature\<close> an object
  of type \<open>Feature\<close> with its \<open>geometry\<close> member (possibly \<open>null\<close>), \<open>Collection\<close> an
  object with a \<open>type\<close> and a \<open>features\<close> array.
\<close>

datatype geojson =
    Coord position
  | Geom geometry
  | Feature "geometry option"
  | Collection string "geojson list"

record options =
  opt_units :: "string option"
  opt_resolution :: jsval

text \<open>
  The functions of other packages that the query calls; one whose result is a sum may
  throw. \<open>distance\<close> takes the unit name when the call passes one. \<open>search\<close> stands
  for \<open>astar.search\<close>; it receives the matrix of the graph and the two index pairs
  \<open>(row, column)\<close> at which the code reads \<open>graph.grid\<close>, and returns the \<open>(x, y)\<close>
  members of the nodes of the result. \<open>newGraph\<close> is the constructor \<open>Graph\<close>.
  \<open>stringToNumber\<close> is the conversion of a non-empty string to a number by the language
  (\<open>None\<close> for NaN); the empty string converts to \<open>0\<close>.
\<close>

record collab =
  getCoord :: "geojson \<Rightarrow> error + position"
  isNumber :: "jsval \<Rightarrow> bool"
  stringToNumber :: "string \<Rightarrow> real option"
  bbox :: "geojson \<Rightarrow> error + real \<times> real \<times> real \<times> real"
  bboxPolygon :: "real \<times> real \<times> real \<times> real \<Rightarrow> error + geojson"
  scale :: "geojson \<Rightarrow> real \<Rightarrow> error + geojson"
  distance :: "geojson \<Rightarrow> geojson \<Rightarrow> string option \<Rightarrow> error + real"
  inside :: "geojson \<Rightarrow> geojson \<Rightarrow> error + bool"
  newGraph :: "nat list list \<Rightarrow> error + unit"
  search :: "nat list list \<Rightarrow> nat \<times> nat \<Rightarrow> nat \<times> nat \<Rightarrow> error + (nat \<times> nat) list"
  cleanCoords :: "geojson \<Rightarrow> error + geojson"

text \<open>Sequencing of calls that may throw: the first error ends the computation.\<close>

definition ebind :: "error + 'a \<Rightarrow> ('a \<Rightarrow> error + 'b) \<Rightarrow> error + 'b" where
  "ebind m f = (case m of Inl e \<Rightarrow> Inl e | Inr a \<Rightarrow> f a)"

text \<open>The constructors \<open>point\<close> and \<open>lineString\<close> of the helpers package.\<close>

definition point :: "position \<Rightarrow> geojson" where
  "point p = Feature (Some (Point p))"

definition lineString :: "position list \<Rightarrow> geojson" where
  "lineString cs = Feature (Some (LineString cs))"

fun gtype :: "geometry \<Rightarrow> string" where
  "gtype (Point p) = ''Point''"
| "gtype (LineString cs) = ''LineString''"
| "gtype (Polygon rs) = ''Polygon''"

subsection \<open>Truthiness and numeric conversion\<close>

fun truthy :: "jsval \<Rightarrow> bool" where
  "truthy JUndefined = False"
| "truthy JNull = False"
| "truthy (JBool b) = b"
| "truthy (JNum r) = (r \<noteq> 0)"
| "truthy JNaN = False"
| "truthy (JStr s) = (s \<noteq> [])"

fun toNumber :: "collab \<Rightarrow> jsval \<Rightarrow> real option" where
  "toNumber E JUndefined = None"
| "toNumber E JNull = Some 0"
| "toNumber E (JBool b) = Some (if b then 1 else 0)"
| "toNumber E (JNum r) = Some r"
| "toNumber E JNaN = None"
| "toNumber E (JStr s) = (if s = [] then Some 0 else stringToNumber E s)"

text \<open>\<open>v <= 0\<close>: false when \<open>v\<close> converts to NaN.\<close>

definition le_zero :: "collab \<Rightarrow> jsval \<Rightarrow> bool" where
  "le_zero E v = (case toNumber E v of None \<Rightarrow> False | Some r \<Rightarrow> r \<le> 0)"

subsection \<open>\<open>getType\<close> and the validation of the arguments\<close>

definition name_or :: "string option \<Rightarrow> string" where
  "name_or name = (case name of None \<Rightarrow> ''geojson'' | Some n \<Rightarrow> if n = [] then ''geojson'' else n)"

fun getType :: "geojson option \<Rightarrow> string option \<Rightarrow> error + string" where
  "getType None name = Inl (Error (name_or name @ '' is required''))"
| "getType (Some (Feature (Some g))) name = Inr (gtype g)"
| "getType (Some (Feature None)) name = Inr ''Feature''"
| "getType (Some (Geom g)) name = Inr (gtype g)"
| "getType (Some (Collection t fs)) name =
     (if t \<noteq> [] then Inr t else Inl (Error (name_or name @ '' is invalid'')))"
| "getType (Some (Coord p)) name = Inl (Error (name_or name @ '' is invalid''))"

text \<open>Lines 45 to 47.\<close>

definition validate :: "geojson option \<Rightarrow> geojson option \<Rightarrow> geojson option \<Rightarrow> error + unit" where
  "validate start end obstacles =
     ebind (getType start (Some ''start'')) (\<lambda>t.
       if t \<noteq> ''Point'' then Inl (Error ''start must be Point'')
       else ebind (getType end (Some ''end'')) (\<lambda>t.
         if t \<noteq> ''Point'' then Inl (Error ''end must be Point'')
         else (case obstacles of
                 None \<Rightarrow> Inr ()
               | Some ob \<Rightarrow> ebind (getType (Some ob) None) (\<lambda>t.
                   if t \<noteq> ''FeatureCollection''
                   then Inl (Error ''obstacles must be FeatureCollection'')
                   else Inr ()))))"

text \<open>\<open>start.geometry.coordinates\<close>, for an argument validated as a \<open>Point\<close>.\<close>

fun geometry_coordinates :: "geojson \<Rightarrow> error + position" where
  "geometry_coordinates (Feature (Some (Point p))) = Inr p"
| "geometry_coordinates g = Inl TypeError"

text \<open>Line 55.\<close>

definition check_resolution :: "collab \<Rightarrow> jsval \<Rightarrow> error + unit" where
  "check_resolution E resolution =
     (if (truthy resolution \<and> \<not> isNumber E resolution) \<or> le_zero E resolution
      then Inl (Error ''resolution must be a number, greater than 0'')
      else Inr ())"

subsection \<open>The grid area (lines 58 to 67)\<close>

type_synonym box = "real \<times> real \<times> real \<times> real"

text \<open>Line 61: the bounding box of the collection, extended by 15 percent.\<close>

definition grid_box :: "collab \<Rightarrow> geojson \<Rightarrow> error + box" where
  "grid_box E collection =
     ebind (bbox E collection) (\<lambda>b.
       ebind (bboxPolygon E b) (\<lambda>poly.
         ebind (scale E poly 1.15) (\<lambda>scaled. bbox E scaled)))"

text \<open>
  \<open>collection\<close> is the caller's \<open>obstacles\<close> object itself, so the two \<open>push\<close> calls and
  the two \<open>pop\<close> calls change the caller's \<open>features\<close> array. The function returns, next to
  its result, the array as it stands when the function ends or throws.
\<close>

definition grid_area ::
  "collab \<Rightarrow> geojson \<Rightarrow> geojson \<Rightarrow> string \<Rightarrow> geojson list \<Rightarrow> jsval \<Rightarrow> string
     \<Rightarrow> (error + box \<times> jsval) \<times> geojson list" where
  "grid_area E start end t fs res un =
     (let fs1 = fs @ [start];
          fs2 = fs1 @ [end]
      in case grid_box E (Collection t fs2) of
           Inl e \<Rightarrow> (Inl e, fs2)
         | Inr bx \<Rightarrow>
             (case (if \<not> truthy res
                    then (case bx of (west, south, east, north) \<Rightarrow>
                            ebind (distance E (Coord (west, south)) (Coord (east, south)) (Some un))
                              (\<lambda>width. Inr (JNum (width / 100))))
                    else Inr res) of
                Inl e \<Rightarrow> (Inl e, fs2)
              | Inr res' \<Rightarrow> (Inr (bx, res'), butlast (butlast fs2))))"

subsection \<open>The cell size (lines 74 to 77)\<close>

definition cell_size :: "collab \<Rightarrow> box \<Rightarrow> jsval \<Rightarrow> string \<Rightarrow> error + real \<times> real" where
  "cell_size E bx res un =
     (case bx of (west, south, east, north) \<Rightarrow>
        ebind (distance E (point (west, south)) (point (east, south)) (Some un)) (\<lambda>dx.
          (case toNumber E res of None \<Rightarrow> Inl NonFinite | Some r \<Rightarrow>
          (case js_div r dx of None \<Rightarrow> Inl NonFinite | Some xFraction \<Rightarrow>
            let cellWidth = xFraction * (east - west) in
            ebind (distance E (point (west, south)) (point (west, north)) (Some un)) (\<lambda>dy.
              (case js_div r dy of None \<Rightarrow> Inl NonFinite | Some yFraction \<Rightarrow>
                let cellHeight = yFraction * (north - south) in
                Inr (cellWidth, cellHeight)))))))"

subsection \<open>The single pass over the grid (lines 79 to 132)\<close>

text \<open>
  The variables of the pass. \<open>closestToStart\<close> and \<open>closestToEnd\<close> are \<open>None\<close> while they
  hold the initial empty array and \<open>Some (x, y)\<close> once they hold \<open>{x: c, y: r}\<close>;
  \<open>minDistStart\<close> and \<open>minDistEnd\<close> are \<open>None\<close> while they hold \<open>Infinity\<close>. An entry of
  \<open>pointMatrix\<close> is the string \<open>currentX + '|' + currentY\<close>, which line 145 splits and
  converts back to the two numbers; the model keeps the pair of numbers.
\<close>

record scan =
  pointMatrix :: "position list list"
  matrix :: "nat list list"
  closestToStart :: "(nat \<times> nat) option"
  closestToEnd :: "(nat \<times> nat) option"
  minDistStart :: "real option"
  minDistEnd :: "real option"
  matrixRow :: "nat list"
  pointMatrixRow :: "position list"

definition initial_scan :: scan where
  "initial_scan = \<lparr>pointMatrix = [], matrix = [], closestToStart = None, closestToEnd = None,
     minDistStart = None, minDistEnd = None, matrixRow = [], pointMatrixRow = []\<rparr>"

text \<open>The private function \<open>isInside\<close>, over \<open>polygons.features\<close>.\<close>

fun isInside :: "collab \<Rightarrow> geojson \<Rightarrow> geojson list \<Rightarrow> error + bool" where
  "isInside E pt [] = Inr False"
| "isInside E pt (f # fs) =
     ebind (inside E pt f) (\<lambda>b. if b then Inr True else isInside E pt fs)"

text \<open>\<open>d < m\<close> for a minimum \<open>m\<close> that may still be \<open>Infinity\<close>.\<close>

definition less_min :: "real \<Rightarrow> real option \<Rightarrow> bool" where
  "less_min d m = (case m of None \<Rightarrow> True | Some v \<Rightarrow> d < v)"

text \<open>The body of the inner loop up to the update of the closest points (lines 105 to 124).\<close>

definition scan_cell ::
  "collab \<Rightarrow> geojson list \<Rightarrow> geojson \<Rightarrow> geojson \<Rightarrow> real \<Rightarrow> real \<Rightarrow> nat \<Rightarrow> nat \<Rightarrow> scan
     \<Rightarrow> error + scan" where
  "scan_cell E obs start end currentX currentY c r st =
     (let pt = point (currentX, currentY) in
      ebind (isInside E pt obs) (\<lambda>isInsideObstacle.
        let st1 = st\<lparr>matrixRow := matrixRow st @ [if isInsideObstacle then 0 else 1],
                     pointMatrixRow := pointMatrixRow st @ [(currentX, currentY)]\<rparr> in
        ebind (distance E pt start None) (\<lambda>distStart.
          let st2 = (if \<not> isInsideObstacle \<and> less_min distStart (minDistStart st1)
                     then st1\<lparr>minDistStart := Some distStart, closestToStart := Some (c, r)\<rparr>
                     else st1) in
          ebind (distance E pt end None) (\<lambda>distEnd.
            let st3 = (if \<not> isInsideObstacle \<and> less_min distEnd (minDistEnd st2)
                       then st2\<lparr>minDistEnd := Some distEnd, closestToEnd := Some (c, r)\<rparr>
                       else st2) in
            Inr st3))))"

text \<open>
  The inner loop \<open>while (currentX <= east)\<close>. It need not end (a cell width that is not
  positive), so its value is \<open>None\<close> when it runs forever.
\<close>

partial_function (option) scan_row ::
  "collab \<Rightarrow> geojson list \<Rightarrow> geojson \<Rightarrow> geojson \<Rightarrow> real \<Rightarrow> real \<Rightarrow> real \<Rightarrow> nat
     \<Rightarrow> real \<Rightarrow> nat \<Rightarrow> scan \<Rightarrow> (error + scan) option" where
  [code]: "scan_row E obs start end east cellWidth currentY r currentX c st =
     (if currentX \<le> east
      then (case scan_cell E obs start end currentX currentY c r st of
              Inl e \<Rightarrow> Some (Inl e)
            | Inr st' \<Rightarrow>
                scan_row E obs start end east cellWidth currentY r (currentX + cellWidth) (c + 1) st')
      else Some (Inr st))"

text \<open>The outer loop \<open>while (currentY >= south)\<close>.\<close>

partial_function (option) scan_rows ::
  "collab \<Rightarrow> geojson list \<Rightarrow> geojson \<Rightarrow> geojson \<Rightarrow> real \<Rightarrow> real \<Rightarrow> real \<Rightarrow> real \<Rightarrow> real
     \<Rightarrow> real \<Rightarrow> real \<Rightarrow> nat \<Rightarrow> scan \<Rightarrow> (error + scan) option" where
  [code]: "scan_rows E obs start end west south east cellWidth cellHeight deltaX currentY r st =
     (if currentY \<ge> south
      then (case scan_row E obs start end east cellWidth currentY r (west + deltaX) 0
                   (st\<lparr>matrixRow := [], pointMatrixRow := []\<rparr>) of
              None \<Rightarrow> None
            | Some (Inl e) \<Rightarrow> Some (Inl e)
            | Some (Inr st') \<Rightarrow>
                scan_rows E obs start end west south east cellWidth cellHeight deltaX
                  (currentY - cellHeight) (r + 1)
                  (st'\<lparr>matrix := matrix st' @ [matrixRow st'],
                       pointMatrix := pointMatrix st' @ [pointMatrixRow st']\<rparr>))
      else Some (Inr st))"

text \<open>Lines 79 to 132: the counts, the margins and the pass.\<close>

definition grid_scan ::
  "collab \<Rightarrow> geojson list \<Rightarrow> geojson \<Rightarrow> geojson \<Rightarrow> box \<Rightarrow> real \<Rightarrow> real
     \<Rightarrow> (error + scan) option" where
  "grid_scan E obs start end bx cellWidth cellHeight =
     (case bx of (west, south, east, north) \<Rightarrow>
        let bboxHorizontalSide = east - west;
            bboxVerticalSide = north - south
        in (case js_div bboxHorizontalSide cellWidth of None \<Rightarrow> Some (Inl NonFinite) | Some qx \<Rightarrow>
           (case js_div bboxVerticalSide cellHeight of None \<Rightarrow> Some (Inl NonFinite) | Some qy \<Rightarrow>
             let columns = \<lfloor>qx\<rfloor>;
                 rows = \<lfloor>qy\<rfloor>;
                 deltaX = (bboxHorizontalSide - of_int columns * cellWidth) / 2;
                 deltaY = (bboxVerticalSide - of_int rows * cellHeight) / 2
             in scan_rows E obs start end west south east cellWidth cellHeight deltaX
                  (north - deltaY) 0 initial_scan)))"

subsection \<open>The search and the path (lines 137 to 162)\<close>

text \<open>
  While \<open>closestToStart\<close> is the empty array, \<open>closestToStart.y\<close> is \<open>undefined\<close>,
  \<open>graph.grid[undefined]\<close> is \<open>undefined\<close>, and reading a member of it throws.
\<close>

definition find_path :: "collab \<Rightarrow> scan \<Rightarrow> error + (nat \<times> nat) list" where
  "find_path E st =
     ebind (newGraph E (matrix st)) (\<lambda>u.
       (case closestToStart st of
          None \<Rightarrow> Inl TypeError
        | Some (sx, sy) \<Rightarrow>
            (case closestToEnd st of
               None \<Rightarrow> Inl TypeError
             | Some (ex, ey) \<Rightarrow> search E (matrix st) (sy, sx) (ey, ex))))"

text \<open>
  The callback of \<open>forEach\<close>: \<open>pointMatrix[coord.x][coord.y]\<close> is \<open>undefined\<close> outside the
  matrix, and splitting it throws.
\<close>

fun map_nodes :: "position list list \<Rightarrow> (nat \<times> nat) list \<Rightarrow> error + position list" where
  "map_nodes pm [] = Inr []"
| "map_nodes pm ((x, y) # ns) =
     (if x < length pm \<and> y < length (pm ! x)
      then ebind (map_nodes pm ns) (\<lambda>rest. Inr (pm ! x ! y # rest))
      else Inl TypeError)"

definition reconstruct ::
  "collab \<Rightarrow> geojson \<Rightarrow> geojson \<Rightarrow> position list list \<Rightarrow> (nat \<times> nat) list \<Rightarrow> error + geojson" where
  "reconstruct E start end pm result =
     ebind (geometry_coordinates start) (\<lambda>s0.
       ebind (map_nodes pm result) (\<lambda>mid.
         ebind (geometry_coordinates end) (\<lambda>e0.
           cleanCoords E (lineString ([s0] @ mid @ [e0])))))"

subsection \<open>The exported function\<close>

definition units_of :: "options option \<Rightarrow> string" where
  "units_of opts =
     (case opts of
        None \<Rightarrow> ''kilometers''
      | Some opt \<Rightarrow> (case opt_units opt of
                     None \<Rightarrow> ''kilometers''
                   | Some u \<Rightarrow> if u = [] then ''kilometers'' else u))"

definition resolution_of :: "options option \<Rightarrow> jsval" where
  "resolution_of opts = (case opts of None \<Rightarrow> JUndefined | Some opt \<Rightarrow> opt_resolution opt)"

text \<open>
  The value is \<open>None\<close> when the call does not return; otherwise it is the result (the
  thrown error or the returned line) and the caller's \<open>obstacles\<close> object as the call
  leaves it. After the validation \<open>start\<close> and \<open>end\<close> are present and \<open>obstacles\<close>, when
  present, is a collection; the branches for the other shapes are never taken.
\<close>

definition shortestPath ::
  "collab \<Rightarrow> geojson option \<Rightarrow> geojson option \<Rightarrow> geojson option \<Rightarrow> options option
     \<Rightarrow> ((error + geojson) \<times> geojson option) option" where
  "shortestPath E start end obstacles opts =
     (case validate start end obstacles of
        Inl err \<Rightarrow> Some (Inl err, obstacles)
      | Inr u \<Rightarrow>
     (case (start, end) of
        (Some s, Some e) \<Rightarrow>
          let direct = ebind (getCoord E s) (\<lambda>a. ebind (getCoord E e) (\<lambda>b. Inr (lineString [a, b])))
          in (case obstacles of
                None \<Rightarrow> Some (direct, obstacles)
              | Some (Collection t fs) \<Rightarrow>
                  if length fs = 0 then Some (direct, obstacles)
                  else
                    let un = units_of opts;
                        res = resolution_of opts
                    in (case check_resolution E res of
                          Inl err \<Rightarrow> Some (Inl err, obstacles)
                        | Inr u \<Rightarrow>
                       (case grid_area E s e t fs res un of
                          (Inl err, fs') \<Rightarrow> Some (Inl err, Some (Collection t fs'))
                        | (Inr (bx, res'), fs') \<Rightarrow>
                       (case cell_size E bx res' un of
                          Inl err \<Rightarrow> Some (Inl err, Some (Collection t fs'))
                        | Inr (cellWidth, cellHeight) \<Rightarrow>
                       (case grid_scan E fs' s e bx cellWidth cellHeight of
                          None \<Rightarrow> None
                        | Some (Inl err) \<Rightarrow> Some (Inl err, Some (Collection t fs'))
                        | Some (Inr st) \<Rightarrow>
                            Some (ebind (find_path E st) (\<lambda>result.
                                    reconstruct E s e (pointMatrix st) result),
                                  Some (Collection t fs'))))))
              | Some ob \<Rightarrow> Some (Inl TypeError, obstacles))
      | other \<Rightarrow> Some (Inl TypeError, obstacles)))"

subsection \<open>The loops as bounded iterations\<close>



definition steps :: "real \<Rightarrow> real \<Rightarrow> nat" where
  "steps d w = (if 0 \<le> d then nat \<lfloor>d / w\<rfloor> + 1 else 0)"

subsection \<open>An instance of the collaborators, for concrete runs\<close>

text \<open>
  A planar stand-in for each collaborator: the bounding box of all positions, the box as
  a polygon, scaling about the centre of the box, the taxicab distance (which rejects an
  unknown unit name, as the distance package does), the even-odd test on the outer ring, a
  search that steps straight to the end node, and a cleaning that drops repeated
  neighbours.
\<close>

fun geometry_positions :: "geometry \<Rightarrow> position list" where
  "geometry_positions (Point p) = [p]"
| "geometry_positions (LineString cs) = cs"
| "geometry_positions (Polygon rs) = concat rs"

fun positions :: "geojson \<Rightarrow> position list" where
  "positions (Coord p) = [p]"
| "positions (Geom g) = geometry_positions g"
| "positions (Feature None) = []"
| "positions (Feature (Some g)) = geometry_positions g"
| "positions (Collection t fs) = concat (map positions fs)"

definition ex_bbox :: "geojson \<Rightarrow> error + box" where
  "ex_bbox g =
     (case positions g of
        [] \<Rightarrow> Inl (Error ''no positions'')
      | p # ps \<Rightarrow> Inr (fold min (map fst ps) (fst p), fold min (map snd ps) (snd p),
                        fold max (map fst ps) (fst p), fold max (map snd ps) (snd p)))"

definition ex_bboxPolygon :: "box \<Rightarrow> error + geojson" where
  "ex_bboxPolygon bx =
     (case bx of (west, south, east, north) \<Rightarrow>
        Inr (Feature (Some (Polygon
          [[(west, south), (east, south), (east, north), (west, north), (west, south)]]))))"

definition ex_scale :: "geojson \<Rightarrow> real \<Rightarrow> error + geojson" where
  "ex_scale g f =
     (case g of
        Feature (Some (Polygon rs)) \<Rightarrow>
          ebind (ex_bbox g) (\<lambda>bx. case bx of (west, south, east, north) \<Rightarrow>
            let cx = (west + east) / 2; cy = (south + north) / 2 in
            Inr (Feature (Some (Polygon
              (map (map (\<lambda>p. (cx + f * (fst p - cx), cy + f * (snd p - cy)))) rs)))))
      | other \<Rightarrow> Inl (Error ''not a polygon''))"

definition ex_getCoord :: "geojson \<Rightarrow> error + position" where
  "ex_getCoord g =
     (case g of
        Coord p \<Rightarrow> Inr p
      | Geom (Point p) \<Rightarrow> Inr p
      | Feature (Some (Point p)) \<Rightarrow> Inr p
      | other \<Rightarrow> Inl (Error ''coord must be GeoJSON Point or an Array of numbers''))"

definition ex_distance :: "geojson \<Rightarrow> geojson \<Rightarrow> string option \<Rightarrow> error + real" where
  "ex_distance a b un =
     ebind (ex_getCoord a) (\<lambda>p. ebind (ex_getCoord b) (\<lambda>q.
       if un \<in> {None, Some ''kilometers'', Some ''miles'', Some ''degrees'', Some ''radians''}
       then Inr (\<bar>fst p - fst q\<bar> + \<bar>snd p - snd q\<bar>)
       else Inl (Error ''units is invalid'')))"

definition ex_inside :: "geojson \<Rightarrow> geojson \<Rightarrow> error + bool" where
  "ex_inside pt poly =
     (case (pt, poly) of
        (Feature (Some (Point p)), Feature (Some (Polygon (ring # holes)))) \<Rightarrow>
          (case classify_textbook p ring of None \<Rightarrow> Inl NonFinite | Some b \<Rightarrow> Inr b)
      | other \<Rightarrow> Inl (Error ''invalid input to inside''))"

definition ex_cleanCoords :: "geojson \<Rightarrow> error + geojson" where
  "ex_cleanCoords g =
     (case g of
        Feature (Some (LineString cs)) \<Rightarrow> Inr (lineString (remdups_adj cs))
      | other \<Rightarrow> Inl (Error ''not a line''))"

definition ex_isNumber :: "jsval \<Rightarrow> bool" where
  "ex_isNumber v = (case v of JNum r \<Rightarrow> True | JBool b \<Rightarrow> True | JStr s \<Rightarrow> s = [] | other \<Rightarrow> False)"

definition ex :: collab where
  "ex = \<lparr>getCoord = ex_getCoord, isNumber = ex_isNumber, stringToNumber = (\<lambda>s. None),
     bbox = ex_bbox, bboxPolygon = ex_bboxPolygon, scale = ex_scale, distance = ex_distance,
     inside = ex_inside, newGraph = (\<lambda>m. Inr ()),
     search = (\<lambda>m a b. Inr (if a = b then [] else [b])), cleanCoords = ex_cleanCoords\<rparr>"

text \<open>The start, the end and the rectangular obstacle of the example in the source.\<close>

definition ex_start :: geojson where
  "ex_start = Feature (Some (Point (-5, -6)))"

definition ex_end :: geojson where
  "ex_end = Feature (Some (Point (9, -6)))"

definition ex_obstacle :: geojson where
  "ex_obstacle = Feature (Some (Polygon [[(0, -7), (5, -7), (5, -3), (0, -3), (0, -7)]]))"

text \<open>
  The extended bounding box of the example, and the state in which the pass over it with
  cells of width and height 5 ends.
\<close>

definition ex_box :: box where
  "ex_box = (- (121 / 20), - (73 / 10), 201 / 20, - (27 / 10))"

definition ex_scan :: scan where
  "ex_scan = \<lparr>pointMatrix = [[(- (11 / 2), - 5), (- (1 / 2), - 5), (9 / 2, - 5), (19 / 2, - 5)]],
     matrix = [[1, 1, 0, 1]], closestToStart = Some (0, 0), closestToEnd = Some (3, 0),
     minDistStart = Some (3 / 2), minDistEnd = Some (3 / 2), matrixRow = [1, 1, 0, 1],
     pointMatrixRow = [(- (11 / 2), - 5), (- (1 / 2), - 5), (9 / 2, - 5), (19 / 2, - 5)]\<rparr>"







section \<open>Properties of the hit test\<close>

lemma toggles_defined: "\<exists>b. toggles pt vi vj = Some b"
  by (auto simp: toggles_def js_div_def Let_def)

lemma classify_loop_defined: "\<exists>b. classify_loop pt ring i j ins = Some b"
proof (induction pt ring i j ins rule: classify_loop.induct)
  case (1 pt ring i j ins)
  show ?case
  proof (cases "i < length ring")
    case False
    then show ?thesis by simp
  next
    case True
    obtain b where b: "toggles pt (ring ! i) (ring ! j) = Some b"
      using toggles_defined by blast
    show ?thesis
      using b True "1.IH" by (cases b) auto
  qed
qed



text \<open>
  The crossing abscissa of a pair of vertices that the ordinate of the point separates lies
  between the abscissas of the two vertices. So to the right of all vertices no pair
  toggles, and to the left of all vertices a pair toggles exactly when the ordinate of the
  point separates it; above and below all vertices no pair toggles. In each case the loop
  of the source ends with \<open>false\<close>: a point strictly outside the bounding box of the ring
  is classified as outside.
\<close>

lemma crossing_between:
  fixes x y xi yi xj yj :: real
  assumes "(yi > y) \<noteq> (yj > y)"
  shows "\<exists>t. 0 \<le> t \<and> t \<le> 1 \<and>
           (xj - xi) * (y - yi) / (yj - yi) + xi = (1 - t) * xi + t * xj"
proof -
  define t where "t = (y - yi) / (yj - yi)"
  from assms have d: "yj - yi \<noteq> 0"
    by auto
  from assms have "0 \<le> t \<and> t \<le> 1"
    unfolding t_def by (auto simp: field_simps divide_le_eq le_divide_eq)
  moreover have "(xj - xi) * (y - yi) / (yj - yi) = (xj - xi) * t"
    unfolding t_def by simp
  then have "(xj - xi) * (y - yi) / (yj - yi) + xi = (1 - t) * xi + t * xj"
    by (simp add: algebra_simps)
  ultimately show ?thesis
    by blast
qed

lemma toggles_right:
  assumes "fst vi < fst pt" "fst vj < fst pt"
  shows "toggles pt vi vj = Some False"
proof (cases "(snd vi > snd pt) \<noteq> (snd vj > snd pt)")
  case False
  then show ?thesis
    by (simp add: toggles_def Let_def)
next
  case True
  from crossing_between [OF True, of "fst vj" "fst vi"] obtain t where
    t: "0 \<le> t" "t \<le> 1" and
    q: "(fst vj - fst vi) * (snd pt - snd vi) / (snd vj - snd vi) + fst vi = (1 - t) * fst vi + t * fst vj"
    by blast
  from t assms have "(1 - t) * fst vi + t * fst vj < fst pt"
    by (intro convex_bound_lt) simp_all
  with True q show ?thesis
    by (auto simp: toggles_def Let_def js_div_def)
qed

lemma toggles_left:
  assumes "fst pt < fst vi" "fst pt < fst vj"
  shows "toggles pt vi vj = Some ((snd vi > snd pt) \<noteq> (snd vj > snd pt))"
proof (cases "(snd vi > snd pt) \<noteq> (snd vj > snd pt)")
  case False
  then show ?thesis
    by (simp add: toggles_def Let_def)
next
  case True
  from crossing_between [OF True, of "fst vj" "fst vi"] obtain t where
    t: "0 \<le> t" "t \<le> 1" and
    q: "(fst vj - fst vi) * (snd pt - snd vi) / (snd vj - snd vi) + fst vi = (1 - t) * fst vi + t * fst vj"
    by blast
  from t assms have "(1 - t) * (- fst vi) + t * (- fst vj) < - fst pt"
    by (intro convex_bound_lt) simp_all
  then have "fst pt < (1 - t) * fst vi + t * fst vj"
    by (simp add: algebra_simps)
  with True q show ?thesis
    by (auto simp: toggles_def Let_def js_div_def)
qed

lemma parity_flip: "p \<noteq> q \<Longrightarrow> (\<not> (q \<noteq> r)) = (p \<noteq> r)" for p q r :: bool
  by auto

lemma classify_loop_parity:
  fixes a :: "nat \<Rightarrow> bool"
  assumes "\<And>i j. i < length ring \<Longrightarrow> j < length ring \<Longrightarrow>
                  toggles pt (ring ! i) (ring ! j) = Some (a i \<noteq> a j)"
    and "j < length ring" "i \<le> length ring"
    and "ins = (a j \<noteq> a (length ring - 1))"
    and "0 < i \<Longrightarrow> a j = a (i - 1)"
  shows "classify_loop pt ring i j ins = Some False"
  using assms
proof (induction pt ring i j ins rule: classify_loop.induct)
  case (1 pt ring i j ins)
  note tog = "1.prems"(1)
  show ?case
  proof (cases "i < length ring")
    case False
    with "1.prems" have "i = length ring" "0 < i"
      by auto
    with "1.prems" have "ins = False"
      by simp
    with False show ?thesis
      by simp
  next
    case i: True
    note t = tog [OF i "1.prems"(2)]
    show ?thesis
    proof (cases "a i \<noteq> a j")
      case True
      have "classify_loop pt ring (i + 1) i (\<not> ins) = Some False"
      proof (rule "1.IH"(1) [OF i t [unfolded eq_True [THEN iffD2, OF True]] refl tog])
        show "i < length ring" "i + 1 \<le> length ring"
          using i by simp_all
        show "(\<not> ins) = (a i \<noteq> a (length ring - 1))"
          unfolding "1.prems"(4) by (rule parity_flip [OF True])
        show "a i = a (i + 1 - 1)"
          by simp
      qed
      with t True i show ?thesis
        by simp
    next
      case False
      have "classify_loop pt ring (i + 1) j ins = Some False"
      proof (rule "1.IH"(2) [OF i t [unfolded eq_False [THEN iffD2, OF False]] refl tog])
        show "j < length ring" "i + 1 \<le> length ring"
          using i "1.prems"(2) by simp_all
        show "ins = (a j \<noteq> a (length ring - 1))"
          using "1.prems"(4) .
        show "a j = a (i + 1 - 1)"
          using False by simp
      qed
      with t False i show ?thesis
        by simp
    qed
  qed
qed

lemma classify_parity:
  fixes a :: "nat \<Rightarrow> bool"
  assumes "\<And>i j. i < length ring \<Longrightarrow> j < length ring \<Longrightarrow>
             toggles pt (ring ! i) (ring ! j) = Some (a i \<noteq> a j)"
  shows "classify pt ring = Some False"
proof (cases "ring = []")
  case True
  then show ?thesis
    by (simp add: classify_def)
next
  case False
  then show ?thesis
    unfolding classify_def
    by (intro classify_loop_parity [where a = a] assms) simp_all
qed

lemma classify_outside_box:
  assumes "(\<forall>v \<in> set ring. fst pt < fst v) \<or> (\<forall>v \<in> set ring. fst v < fst pt) \<or>
           (\<forall>v \<in> set ring. snd pt < snd v) \<or> (\<forall>v \<in> set ring. snd v < snd pt)"
  shows "classify pt ring = Some False"
proof -
  consider (west) "\<forall>v \<in> set ring. fst pt < fst v" | (east) "\<forall>v \<in> set ring. fst v < fst pt"
    | (south) "\<forall>v \<in> set ring. snd pt < snd v" | (north) "\<forall>v \<in> set ring. snd v < snd pt"
    using assms by blast
  then show ?thesis
  proof cases
    case west
    show ?thesis
      by (rule classify_parity [where a = "\<lambda>k. snd (ring ! k) > snd pt"])
         (simp add: toggles_left west)
  next
    case east
    show ?thesis
      by (rule classify_parity [where a = "\<lambda>k. True"]) (simp add: toggles_right east)
  next
    case south
    show ?thesis
      by (rule classify_parity [where a = "\<lambda>k. True"]) (simp add: toggles_def Let_def south)
  next
    case north
    then have "\<And>i. i < length ring \<Longrightarrow> \<not> snd pt < snd (ring ! i)"
      by (meson nth_mem not_less_iff_gr_or_eq)
    then show ?thesis
      by (intro classify_parity [where a = "\<lambda>k. True"]) (simp add: toggles_def Let_def)
  qed
qed

text \<open>
  C1 (the code departs from the claim). Against the square ring
  \<open>[(0,0),(0,10),(10,10),(10,0),(0,0)]\<close> the point \<open>(5,5)\<close>, strictly inside the convex
  square, is classified as outside: the previous-vertex index stays at the last vertex
  \<open>(0,0)\<close>, and no tested pair of vertices toggles.
\<close>

theorem classify_square_interior: "classify (5, 5) square = Some False"
  by (simp add: classify_def square_def toggles_def js_div_def)

text \<open>
  C4 (the code departs from the claim). The loop of the source and the loop that advances
  the previous-vertex index on every iteration disagree on the point \<open>(1,5)\<close> and the
  square ring \<open>[(0,0),(10,0),(10,10),(0,10),(0,0)]\<close>: the source answers outside, the
  textbook loop inside.
\<close>

theorem classify_differs_from_textbook:
  "classify (1, 5) [(0, 0), (10, 0), (10, 10), (0, 10), (0, 0)] = Some False \<and>
   classify_textbook (1, 5) [(0, 0), (10, 0), (10, 10), (0, 10), (0, 0)] = Some True"
  by (simp add: classify_def classify_textbook_def toggles_def js_div_def)

text \<open>
  C9. An edge whose two endpoints have the same y-coordinate (a horizontal or a
  zero-length edge) never toggles, for every point; and \<open>classify\<close> returns a boolean for
  every point and every ring: no division by zero is ever evaluated, because the division
  is reached only when the two y-coordinates differ.
\<close>

theorem classify_total:
  "(snd vi = snd vj \<longrightarrow> toggles pt vi vj = Some False) \<and>
   (\<exists>b. classify pt ring = Some b)"
  using classify_loop_defined [of pt ring 0 "length ring - 1" False]
  by (simp add: classify_def toggles_def Let_def)

theorem classify_total_witness:
  "snd ((0, 3) :: position) = snd ((7, 3) :: position) \<and>
   toggles (1, 3) (0, 3) (7, 3) = Some False \<and>
   (\<exists>b. classify (1, 3) [(0, 3), (7, 3), (7, 3), (0, 3)] = Some b)"
  using classify_total [of "(0, 3)" "(7, 3)" "(1, 3)" "[(0, 3), (7, 3), (7, 3), (0, 3)]"]
  by simp

section \<open>Properties of the grid pass\<close>

subsection \<open>The number of iterations\<close>

lemma steps_neg: "d < 0 \<Longrightarrow> steps d w = 0"
  by (simp add: steps_def)





subsection \<open>What one pass records\<close>












subsection \<open>Runs of the example\<close>

lemmas ex_simps = ex_def ex_inside_def point_def ex_obstacle_def classify_textbook_def
  toggles_def js_div_def ex_distance_def ex_getCoord_def ex_start_def ex_end_def less_min_def
  scan_cell_def ebind_def Let_def


lemma ex_grid_scan: "grid_scan ex [ex_obstacle] ex_start ex_end ex_box 5 5 = Some (Inr ex_scan)"
  by (simp add: ex_box_def ex_scan_def grid_scan_def initial_scan_def scan_rows.simps
      scan_row.simps ex_simps)





subsection \<open>The stages of the query\<close>

lemma grid_area_restores:
  assumes "grid_area E start end t fs res un = (Inr v, fs')"
  shows "fs' = fs"
  using assms
  by (auto simp: grid_area_def Let_def butlast_append split: sum.splits if_splits prod.splits)

lemma shortestPath_stages:
  assumes "validate (Some s) (Some e) (Some (Collection t fs)) = Inr ()"
    and "fs \<noteq> []"
    and "check_resolution E (resolution_of opts) = Inr ()"
    and "grid_area E s e t fs (resolution_of opts) (units_of opts) = (Inr (bx, res'), fs')"
    and "cell_size E bx res' (units_of opts) = Inr (cellWidth, cellHeight)"
    and "grid_scan E fs' s e bx cellWidth cellHeight = Some (Inr st)"
  shows "shortestPath E (Some s) (Some e) (Some (Collection t fs)) opts =
         Some (ebind (find_path E st) (\<lambda>result. reconstruct E s e (pointMatrix st) result),
               Some (Collection t fs))"
  using assms grid_area_restores [OF assms(4)]
  by (simp add: shortestPath_def Let_def)

lemma grid_area_throws:
  assumes "grid_area E start end t fs res un = (Inl err, fs')"
  shows "fs' = fs @ [start, end]"
  using assms
  by (auto simp: grid_area_def Let_def split: sum.splits if_splits prod.splits)

lemma shortestPath_obstacles:
  assumes "shortestPath E start end obstacles opts = Some (r, obs')"
  shows "obs' = obstacles \<or>
         (\<exists>s e t fs err. start = Some s \<and> end = Some e \<and> obstacles = Some (Collection t fs) \<and>
            grid_area E s e t fs (resolution_of opts) (units_of opts) = (Inl err, fs @ [s, e]) \<and>
            r = Inl err \<and> obs' = Some (Collection t (fs @ [s, e])))"
proof (cases "validate start end obstacles")
  case (Inl err)
  with assms show ?thesis
    by (simp add: shortestPath_def)
next
  case v: (Inr u)
  show ?thesis
  proof (cases start)
    case None
    with assms v show ?thesis
      by (simp add: shortestPath_def)
  next
    case s: (Some s)
    show ?thesis
    proof (cases "end")
      case None
      with assms v s show ?thesis
        by (simp add: shortestPath_def)
    next
      case e: (Some e)
      show ?thesis
      proof (cases obstacles)
        case None
        with assms v s e show ?thesis
          by (simp add: shortestPath_def Let_def)
      next
        case ob: (Some ob)
        show ?thesis
        proof (cases ob)
          case (Collection t fs)
          show ?thesis
          proof (cases "grid_area E s e t fs (resolution_of opts) (units_of opts)")
            case (Pair a fs')
            show ?thesis
            proof (cases a)
              case (Inl err)
              with Pair have "fs' = fs @ [s, e]"
                using grid_area_throws by blast
              with assms v s e ob Collection Pair Inl show ?thesis
                by (auto simp: shortestPath_def Let_def split: sum.splits if_splits)
            next
              case (Inr w)
              with Pair have "fs' = fs"
                using grid_area_restores by blast
              with assms v s e ob Collection Pair Inr show ?thesis
                by (auto simp: shortestPath_def Let_def split: sum.splits if_splits option.splits prod.splits)
            qed
          qed
        qed (use assms v s e ob in \<open>simp_all add: shortestPath_def Let_def\<close>)
      qed
    qed
  qed
qed

lemma geometry_coordinates_Inr:
  assumes "geometry_coordinates g = Inr p"
  shows "g = Feature (Some (Point p))"
  using assms by (cases g rule: geometry_coordinates.cases) simp_all

lemma reconstruct_Inr:
  assumes "reconstruct E s e pm result = Inr out"
  shows "\<exists>s0 e0 mid. s = Feature (Some (Point s0)) \<and> e = Feature (Some (Point e0)) \<and>
           cleanCoords E (lineString ([s0] @ mid @ [e0])) = Inr out"
proof -
  from assms obtain s0 where s0: "geometry_coordinates s = Inr s0"
    by (cases "geometry_coordinates s") (simp_all add: reconstruct_def ebind_def)
  from assms s0 obtain mid where mid: "map_nodes pm result = Inr mid"
    by (cases "map_nodes pm result") (simp_all add: reconstruct_def ebind_def)
  from assms s0 mid obtain e0 where e0: "geometry_coordinates e = Inr e0"
    by (cases "geometry_coordinates e") (simp_all add: reconstruct_def ebind_def)
  from assms s0 mid e0 have "cleanCoords E (lineString ([s0] @ mid @ [e0])) = Inr out"
    by (simp add: reconstruct_def ebind_def)
  with geometry_coordinates_Inr [OF s0] geometry_coordinates_Inr [OF e0] show ?thesis
    by blast
qed

lemma shortestPath_returns:
  assumes "shortestPath E start end (Some (Collection t fs)) opts = Some (Inr out, obs')"
    and "fs \<noteq> []"
  shows "\<exists>s e bx res' fs' cellWidth cellHeight st result.
           start = Some s \<and> end = Some e \<and>
           grid_area E s e t fs (resolution_of opts) (units_of opts) = (Inr (bx, res'), fs') \<and>
           cell_size E bx res' (units_of opts) = Inr (cellWidth, cellHeight) \<and>
           grid_scan E fs' s e bx cellWidth cellHeight = Some (Inr st) \<and>
           find_path E st = Inr result \<and>
           reconstruct E s e (pointMatrix st) result = Inr out \<and>
           obs' = Some (Collection t fs')"
  using assms
  by (auto simp: shortestPath_def Let_def ebind_def
      split: sum.splits option.splits prod.splits if_splits)

lemma falsy_le_zero:
  assumes "\<not> truthy v" "v \<noteq> JUndefined" "v \<noteq> JNaN"
  shows "le_zero E v"
  using assms by (cases v) (simp_all add: le_zero_def)

subsection \<open>The query on the example\<close>

lemma ex_validate:
  "validate (Some ex_start) (Some ex_end) (Some (Collection ''FeatureCollection'' [ex_obstacle])) = Inr ()"
  by (simp add: validate_def ebind_def ex_start_def ex_end_def)

lemma ex_grid_area:
  "grid_area ex ex_start ex_end ''FeatureCollection'' [ex_obstacle] (JNum 5) ''kilometers'' =
     (Inr (ex_box, JNum 5), [ex_obstacle])"
  by (simp add: grid_area_def grid_box_def ex_def ex_bbox_def ex_bboxPolygon_def ex_scale_def
      ebind_def ex_start_def ex_end_def ex_obstacle_def ex_box_def Let_def)

lemma ex_cell_size: "cell_size ex ex_box (JNum 5) ''kilometers'' = Inr (5, 5)"
  by (simp add: cell_size_def ex_box_def ex_def ex_distance_def ex_getCoord_def point_def
      ebind_def js_div_def Let_def)

lemma ex_shortestPath:
  "shortestPath ex (Some ex_start) (Some ex_end)
     (Some (Collection ''FeatureCollection'' [ex_obstacle]))
     (Some \<lparr>opt_units = None, opt_resolution = JNum 5\<rparr>) =
   Some (Inr (lineString [(- 5, - 6), (19 / 2, - 5), (9, - 6)]),
         Some (Collection ''FeatureCollection'' [ex_obstacle]))"
proof -
  have r: "resolution_of (Some \<lparr>opt_units = None, opt_resolution = JNum 5\<rparr>) = JNum 5"
    and u: "units_of (Some \<lparr>opt_units = None, opt_resolution = JNum 5\<rparr>) = ''kilometers''"
    by (simp_all add: resolution_of_def units_of_def)
  have c: "check_resolution ex (JNum 5) = Inr ()"
    by (simp add: check_resolution_def le_zero_def ex_def ex_isNumber_def)
  have "shortestPath ex (Some ex_start) (Some ex_end)
     (Some (Collection ''FeatureCollection'' [ex_obstacle]))
     (Some \<lparr>opt_units = None, opt_resolution = JNum 5\<rparr>) =
     Some (ebind (find_path ex ex_scan) (\<lambda>result. reconstruct ex ex_start ex_end (pointMatrix ex_scan) result),
               Some (Collection ''FeatureCollection'' [ex_obstacle]))"
    using ex_validate c ex_grid_area ex_cell_size ex_grid_scan
    by (intro shortestPath_stages [where bx = ex_box and res' = "JNum 5" and cellWidth = 5
          and cellHeight = 5 and fs' = "[ex_obstacle]"]) (simp_all add: r u)
  also have "ebind (find_path ex ex_scan) (\<lambda>result. reconstruct ex ex_start ex_end (pointMatrix ex_scan) result)
     = Inr (lineString [(- 5, - 6), (19 / 2, - 5), (9, - 6)])"
    by (simp add: find_path_def reconstruct_def ebind_def ex_scan_def ex_def ex_start_def ex_end_def
        ex_cleanCoords_def lineString_def)
  finally show ?thesis .
qed

lemma ex_cleanCoords_ends:
  "\<forall>cs res. 2 \<le> length cs \<and> cleanCoords ex (lineString cs) = Inr res \<longrightarrow>
     (\<exists>cs'. res = lineString cs' \<and> cs' \<noteq> [] \<and> hd cs' = hd cs \<and> last cs' = last cs)"
proof (intro allI impI)
  fix cs res
  assume a: "2 \<le> length cs \<and> cleanCoords ex (lineString cs) = Inr res"
  then have "cs \<noteq> []"
    by auto
  moreover from a have "res = lineString (remdups_adj cs)"
    by (auto simp: ex_def ex_cleanCoords_def lineString_def)
  ultimately show "\<exists>cs'. res = lineString cs' \<and> cs' \<noteq> [] \<and> hd cs' = hd cs \<and> last cs' = last cs"
    by (intro exI [of _ "remdups_adj cs"]) (simp add: hd_remdups_adj last_remdups_adj)
qed

section \<open>The dimensions of the grid\<close>









section \<open>The query\<close>

text \<open>
  C6. For a start and an end of type \<open>Point\<close> and an obstacle collection that is absent
  or empty, the query returns at once the line of exactly the two coordinates that
  \<open>getCoord\<close> gives for the start and the end, and leaves \<open>obstacles\<close> as it is; for the
  start \<open>(-5,-6)\<close> and the end \<open>(9,-6)\<close> that is \<open>[(-5,-6), (9,-6)]\<close>.
\<close>

theorem no_obstacles_shortcut:
  assumes "getType (Some s) (Some ''start'') = Inr ''Point''"
    and "getType (Some e) (Some ''end'') = Inr ''Point''"
    and "obstacles = None \<or> obstacles = Some (Collection ''FeatureCollection'' [])"
    and "getCoord E s = Inr a" and "getCoord E e = Inr b"
  shows "shortestPath E (Some s) (Some e) obstacles opts =
           Some (Inr (lineString [a, b]), obstacles)"
proof -
  from assms(1,2,3) have "validate (Some s) (Some e) obstacles = Inr ()"
    by (auto simp: validate_def ebind_def)
  with assms(3,4,5) show ?thesis
    by (auto simp: shortestPath_def ebind_def Let_def)
qed

theorem no_obstacles_shortcut_witness:
  "getType (Some ex_start) (Some ''start'') = Inr ''Point'' \<and>
   getType (Some ex_end) (Some ''end'') = Inr ''Point'' \<and>
   getCoord ex ex_start = Inr (- 5, - 6) \<and> getCoord ex ex_end = Inr (9, - 6) \<and>
   shortestPath ex (Some ex_start) (Some ex_end) None None =
     Some (Inr (lineString [(- 5, - 6), (9, - 6)]), None) \<and>
   shortestPath ex (Some ex_start) (Some ex_end) (Some (Collection ''FeatureCollection'' [])) None =
     Some (Inr (lineString [(- 5, - 6), (9, - 6)]), Some (Collection ''FeatureCollection'' []))"
proof -
  have t: "getType (Some ex_start) (Some ''start'') = Inr ''Point''"
    "getType (Some ex_end) (Some ''end'') = Inr ''Point''"
    by (simp_all add: ex_start_def ex_end_def)
  have c: "getCoord ex ex_start = Inr (- 5, - 6)" "getCoord ex ex_end = Inr (9, - 6)"
    by (simp_all add: ex_def ex_getCoord_def ex_start_def ex_end_def)
  from no_obstacles_shortcut [OF t _ c, of None None]
    no_obstacles_shortcut [OF t _ c, of "Some (Collection ''FeatureCollection'' [])" None] t c
  show ?thesis
    by simp
qed

text \<open>
  C8 (counterexample). With no obstacles the query returns the direct line although the
  resolution is \<open>-1\<close>: line 50 returns before line 55 checks the option. And the value
  NaN, which \<open>isNumber\<close> rejects, passes the check of line 55 and is then replaced by the
  derived resolution, as an absent option is.
\<close>

theorem resolution_check_counterexample:
  "shortestPath ex (Some ex_start) (Some ex_end) None
     (Some \<lparr>opt_units = None, opt_resolution = JNum (- 1)\<rparr>) =
     Some (Inr (lineString [(- 5, - 6), (9, - 6)]), None) \<and>
   \<not> isNumber ex JNaN \<and> check_resolution ex JNaN = Inr () \<and>
   grid_area ex ex_start ex_end ''FeatureCollection'' [ex_obstacle] JNaN ''kilometers'' =
     (Inr (ex_box, JNum (161 / 1000)), [ex_obstacle])"
proof -
  have "validate (Some ex_start) (Some ex_end) None = Inr ()"
    by (simp add: validate_def ebind_def ex_start_def ex_end_def)
  then have "shortestPath ex (Some ex_start) (Some ex_end) None
     (Some \<lparr>opt_units = None, opt_resolution = JNum (- 1)\<rparr>) =
     Some (Inr (lineString [(- 5, - 6), (9, - 6)]), None)"
    by (simp add: shortestPath_def ebind_def ex_def ex_getCoord_def ex_start_def ex_end_def)
  moreover have "\<not> isNumber ex JNaN" "check_resolution ex JNaN = Inr ()"
    by (simp_all add: check_resolution_def le_zero_def ex_def ex_isNumber_def)
  moreover have "grid_box ex (Collection ''FeatureCollection'' [ex_obstacle, ex_start, ex_end]) = Inr ex_box"
    by (simp add: grid_box_def ex_def ex_bbox_def ex_bboxPolygon_def ex_scale_def
        ebind_def ex_start_def ex_end_def ex_obstacle_def ex_box_def)
  then have "grid_area ex ex_start ex_end ''FeatureCollection'' [ex_obstacle] JNaN ''kilometers'' =
     (Inr (ex_box, JNum (161 / 1000)), [ex_obstacle])"
    by (simp add: grid_area_def Let_def)
       (simp add: ex_box_def ex_def ex_distance_def ex_getCoord_def ebind_def)
  ultimately show ?thesis
    by blast
qed

text \<open>
  C8 (amended). For valid arguments with a non-empty obstacle collection: a resolution that
  is supplied (not \<open>undefined\<close>), is not NaN, and is rejected by \<open>isNumber\<close> or is \<open>\<le> 0\<close>
  makes the query throw \<open>resolution must be a number, greater than 0\<close>, with \<open>obstacles\<close>
  untouched; an absent resolution passes the check, and the resolution is then the distance
  along the southern edge of the extended box divided by \<open>100\<close>.
\<close>

theorem resolution_check:
  assumes "validate (Some s) (Some e) (Some (Collection t fs)) = Inr ()" and "fs \<noteq> []"
  shows "(resolution_of opts \<noteq> JUndefined \<and> resolution_of opts \<noteq> JNaN \<and>
          (\<not> isNumber E (resolution_of opts) \<or> le_zero E (resolution_of opts)) \<longrightarrow>
          shortestPath E (Some s) (Some e) (Some (Collection t fs)) opts =
            Some (Inl (Error ''resolution must be a number, greater than 0''),
                  Some (Collection t fs))) \<and>
         (resolution_of opts = JUndefined \<longrightarrow>
          check_resolution E (resolution_of opts) = Inr () \<and>
          (\<forall>west south east north width.
             grid_box E (Collection t (fs @ [s, e])) = Inr (west, south, east, north) \<and>
             distance E (Coord (west, south)) (Coord (east, south)) (Some (units_of opts)) = Inr width \<longrightarrow>
             grid_area E s e t fs (resolution_of opts) (units_of opts) =
               (Inr ((west, south, east, north), JNum (width / 100)), fs)))"
proof (intro conjI impI allI)
  assume a: "resolution_of opts \<noteq> JUndefined \<and> resolution_of opts \<noteq> JNaN \<and>
          (\<not> isNumber E (resolution_of opts) \<or> le_zero E (resolution_of opts))"
  have "(truthy (resolution_of opts) \<and> \<not> isNumber E (resolution_of opts)) \<or>
        le_zero E (resolution_of opts)"
    using a falsy_le_zero [of "resolution_of opts" E] by blast
  then have "check_resolution E (resolution_of opts) =
      Inl (Error ''resolution must be a number, greater than 0'')"
    by (simp add: check_resolution_def)
  with assms show "shortestPath E (Some s) (Some e) (Some (Collection t fs)) opts =
            Some (Inl (Error ''resolution must be a number, greater than 0''),
                  Some (Collection t fs))"
    by (simp add: shortestPath_def Let_def)
next
  assume "resolution_of opts = JUndefined"
  then show "check_resolution E (resolution_of opts) = Inr ()"
    by (simp add: check_resolution_def le_zero_def)
next
  fix west south east north width
  assume u: "resolution_of opts = JUndefined"
    and b: "grid_box E (Collection t (fs @ [s, e])) = Inr (west, south, east, north) \<and>
            distance E (Coord (west, south)) (Coord (east, south)) (Some (units_of opts)) = Inr width"
  then show "grid_area E s e t fs (resolution_of opts) (units_of opts) =
               (Inr ((west, south, east, north), JNum (width / 100)), fs)"
    by (simp add: grid_area_def Let_def ebind_def butlast_append)
qed

theorem resolution_check_witness:
  "validate (Some ex_start) (Some ex_end) (Some (Collection ''FeatureCollection'' [ex_obstacle])) = Inr () \<and>
   le_zero ex (JNum (- 1)) \<and>
   shortestPath ex (Some ex_start) (Some ex_end) (Some (Collection ''FeatureCollection'' [ex_obstacle]))
     (Some \<lparr>opt_units = None, opt_resolution = JNum (- 1)\<rparr>) =
     Some (Inl (Error ''resolution must be a number, greater than 0''),
           Some (Collection ''FeatureCollection'' [ex_obstacle])) \<and>
   check_resolution ex (resolution_of None) = Inr () \<and>
   grid_box ex (Collection ''FeatureCollection'' ([ex_obstacle] @ [ex_start, ex_end])) = Inr ex_box \<and>
   distance ex (Coord (- (121 / 20), - (73 / 10))) (Coord (201 / 20, - (73 / 10))) (Some ''kilometers'')
     = Inr (161 / 10) \<and>
   grid_area ex ex_start ex_end ''FeatureCollection'' [ex_obstacle] JUndefined ''kilometers'' =
     (Inr (ex_box, JNum (161 / 10 / 100)), [ex_obstacle])"
proof -
  let ?opts = "Some \<lparr>opt_units = None, opt_resolution = JNum (- 1)\<rparr>"
  have n: "[ex_obstacle] \<noteq> []"
    by simp
  have r: "resolution_of ?opts = JNum (- 1)" "resolution_of None = JUndefined"
    "units_of None = ''kilometers''"
    by (simp_all add: resolution_of_def units_of_def)
  have l: "le_zero ex (JNum (- 1))"
    by (simp add: le_zero_def)
  have b: "grid_box ex (Collection ''FeatureCollection'' ([ex_obstacle] @ [ex_start, ex_end])) = Inr ex_box"
    by (simp add: grid_box_def ex_def ex_bbox_def ex_bboxPolygon_def ex_scale_def
        ebind_def ex_start_def ex_end_def ex_obstacle_def ex_box_def)
  have d: "distance ex (Coord (- (121 / 20), - (73 / 10))) (Coord (201 / 20, - (73 / 10)))
             (Some ''kilometers'') = Inr (161 / 10)"
    by (simp add: ex_def ex_distance_def ex_getCoord_def ebind_def)
  from resolution_check [OF ex_validate n, of ?opts ex] r(1) l
  have s1: "shortestPath ex (Some ex_start) (Some ex_end)
     (Some (Collection ''FeatureCollection'' [ex_obstacle])) ?opts =
     Some (Inl (Error ''resolution must be a number, greater than 0''),
           Some (Collection ''FeatureCollection'' [ex_obstacle]))"
    by simp
  from resolution_check [OF ex_validate n, of None ex] r(2)
  have s2: "check_resolution ex (resolution_of None) = Inr ()"
    and s3: "grid_box ex (Collection ''FeatureCollection'' ([ex_obstacle] @ [ex_start, ex_end])) =
          Inr (west, south, east, north) \<and>
        distance ex (Coord (west, south)) (Coord (east, south)) (Some (units_of None)) = Inr width \<longrightarrow>
        grid_area ex ex_start ex_end ''FeatureCollection'' [ex_obstacle] (resolution_of None)
          (units_of None) = (Inr ((west, south, east, north), JNum (width / 100)), [ex_obstacle])"
    for west south east north width
    by blast+
  from s3 [of "- (121 / 20)" "- (73 / 10)" "201 / 20" "- (27 / 10)" "161 / 10"] b d
  have s4: "grid_area ex ex_start ex_end ''FeatureCollection'' [ex_obstacle] JUndefined ''kilometers'' =
     (Inr (ex_box, JNum (161 / 10 / 100)), [ex_obstacle])"
    unfolding r ex_box_def by blast
  from ex_validate l s1 s2 b d s4 show ?thesis
    by blast
qed

text \<open>
  C7 (the code departs from the claim). With the unit name \<open>parsecs\<close> and no resolution,
  \<open>distance\<close> throws on line 63, between the two \<open>push\<close> calls and the two \<open>pop\<close> calls:
  the query fails and the caller's collection is left with the start and the end appended.
\<close>

theorem obstacles_left_extended:
  "shortestPath ex (Some ex_start) (Some ex_end)
     (Some (Collection ''FeatureCollection'' [ex_obstacle]))
     (Some \<lparr>opt_units = Some ''parsecs'', opt_resolution = JUndefined\<rparr>) =
   Some (Inl (Error ''units is invalid''),
         Some (Collection ''FeatureCollection'' [ex_obstacle, ex_start, ex_end]))"
proof -
  let ?opts = "Some \<lparr>opt_units = Some ''parsecs'', opt_resolution = JUndefined\<rparr>"
  have r: "resolution_of ?opts = JUndefined" and u: "units_of ?opts = ''parsecs''"
    by (simp_all add: resolution_of_def units_of_def)
  have c: "check_resolution ex JUndefined = Inr ()"
    by (simp add: check_resolution_def le_zero_def)
  have b: "grid_box ex (Collection ''FeatureCollection'' [ex_obstacle, ex_start, ex_end]) = Inr ex_box"
    by (simp add: grid_box_def ex_def ex_bbox_def ex_bboxPolygon_def ex_scale_def
        ebind_def ex_start_def ex_end_def ex_obstacle_def ex_box_def)
  have a: "grid_area ex ex_start ex_end ''FeatureCollection'' [ex_obstacle] JUndefined ''parsecs''
           = (Inl (Error ''units is invalid''), [ex_obstacle, ex_start, ex_end])"
    by (simp add: grid_area_def b Let_def)
       (simp add: ex_box_def ex_def ex_distance_def ex_getCoord_def ebind_def)
  show ?thesis
    by (simp add: shortestPath_def ex_validate r u c a)
qed



text \<open>
  C5. When a query over a non-empty obstacle collection returns a line, the start and the
  end are point features and the line begins with the coordinates of the start and ends
  with the coordinates of the end, given that \<open>cleanCoords\<close> keeps the first and the last
  position of a line.
\<close>

theorem endpoints_preserved:
  assumes "shortestPath E start end (Some (Collection t fs)) opts = Some (Inr out, obs')"
    and "fs \<noteq> []"
    and "\<forall>cs res. 2 \<le> length cs \<and> cleanCoords E (lineString cs) = Inr res \<longrightarrow>
           (\<exists>cs'. res = lineString cs' \<and> cs' \<noteq> [] \<and> hd cs' = hd cs \<and> last cs' = last cs)"
  shows "\<exists>s0 e0 cs. start = Some (Feature (Some (Point s0))) \<and>
           end = Some (Feature (Some (Point e0))) \<and>
           out = lineString cs \<and> cs \<noteq> [] \<and> hd cs = s0 \<and> last cs = e0"
proof -
  from shortestPath_returns [OF assms(1,2)] obtain s e and st :: scan and result where
    se: "start = Some s" "end = Some e" and
    r: "reconstruct E s e (pointMatrix st) result = Inr out"
    by blast
  from reconstruct_Inr [OF r] obtain s0 e0 mid where
    s: "s = Feature (Some (Point s0))" and e: "e = Feature (Some (Point e0))" and
    c: "cleanCoords E (lineString ([s0] @ mid @ [e0])) = Inr out"
    by blast
  have "2 \<le> length ([s0] @ mid @ [e0])"
    by simp
  with assms(3) c obtain cs' where
    "out = lineString cs'" "cs' \<noteq> []" "hd cs' = hd ([s0] @ mid @ [e0])"
    "last cs' = last ([s0] @ mid @ [e0])"
    by blast
  with se s e show ?thesis
    by auto
qed

theorem endpoints_preserved_witness:
  "shortestPath ex (Some ex_start) (Some ex_end)
     (Some (Collection ''FeatureCollection'' [ex_obstacle]))
     (Some \<lparr>opt_units = None, opt_resolution = JNum 5\<rparr>) =
   Some (Inr (lineString [(- 5, - 6), (19 / 2, - 5), (9, - 6)]),
         Some (Collection ''FeatureCollection'' [ex_obstacle])) \<and>
   [ex_obstacle] \<noteq> [] \<and>
   (\<exists>s0 e0 cs. Some ex_start = Some (Feature (Some (Point s0))) \<and>
      Some ex_end = Some (Feature (Some (Point e0))) \<and>
      lineString [(- 5, - 6), (19 / 2, - 5), (9, - 6)] = lineString cs \<and> cs \<noteq> [] \<and>
      hd cs = s0 \<and> last cs = e0)"
proof -
  have n: "[ex_obstacle] \<noteq> []"
    by simp
  from endpoints_preserved [OF ex_shortestPath n ex_cleanCoords_ends] ex_shortestPath n
  show ?thesis
    by blast
qed

end
